theory Spec2Isabelle
  imports Main "HOL-Library.Monad_Syntax"
begin

section \<open>Cultura Chupistica: the game session engine\<close>

text \<open>
  A shallow embedding of the domain model (\<open>Card\<close>, \<open>Game\<close>), of the domain services
  \<open>GameService\<close> and \<open>GameValidationService\<close> as far as drawing a card is concerned, and
  of the use cases \<open>DrawCard\<close> and \<open>ActivateCard\<close>.

  Conventions.
  \<^item> A JavaScript string is a \<open>string\<close> whose characters are its code units; every
    literal of the source lies in Latin-1, and a character beyond ASCII is written by
    its code (\<open>CHR 0xF3\<close> is o with acute accent).
  \<^item> A \<open>Date\<close> is a \<open>nat\<close> (milliseconds); every method that reads the clock takes
    the reading as its argument \<open>now\<close>.
  \<^item> \<open>null\<close> and \<open>undefined\<close> are \<open>None\<close>.
  \<^item> An object used as a dictionary is a map from its keys; a key is taken to differ
    from the names of the properties that every object inherits (\<open>__proto__\<close>,
    \<open>toString\<close> and the like).
  \<^item> A method that throws returns \<open>Inl\<close> of the error. Where every \<open>throw\<close> of a method
    comes before its first assignment, \<open>Inl\<close> also says that the object is unchanged,
    and a call that succeeds returns its result together with the object after the
    call. \<open>activateBrincoCard\<close> and \<open>activateMoveCard\<close> can throw after they have changed
    the object; they return the outcome paired with the object after the call.
\<close>

subsection \<open>Card\<close>

text \<open>
  Suit and rank are strings in the source; they take the four and the thirteen values
  that \<open>_createDeck\<close> enumerates, which \<open>suit_str\<close> and \<open>rank_str\<close> give back.
\<close>

datatype suit = Hearts | Diamonds | Clubs | Spades

datatype rank = RA | R2 | R3 | R4 | R5 | R6 | R7 | R8 | R9 | R10 | RJ | RQ | RK

fun suit_str :: "suit \<Rightarrow> string" where
  "suit_str Hearts = ''hearts''"
| "suit_str Diamonds = ''diamonds''"
| "suit_str Clubs = ''clubs''"
| "suit_str Spades = ''spades''"

fun rank_str :: "rank \<Rightarrow> string" where
  "rank_str RA = ''A''"
| "rank_str R2 = ''2''"
| "rank_str R3 = ''3''"
| "rank_str R4 = ''4''"
| "rank_str R5 = ''5''"
| "rank_str R6 = ''6''"
| "rank_str R7 = ''7''"
| "rank_str R8 = ''8''"
| "rank_str R9 = ''9''"
| "rank_str R10 = ''10''"
| "rank_str RJ = ''J''"
| "rank_str RQ = ''Q''"
| "rank_str RK = ''K''"

text \<open>
  The class \<open>Card\<close>. The constructor stores \<open>suit\<close> and \<open>rank\<close> and derives \<open>id\<close>
  from them; no method assigns a field afterwards, so \<open>id\<close> is the function \<open>card_id\<close>.
\<close>

record Card =
  suit :: suit
  rank :: rank

definition new_Card :: "suit \<Rightarrow> rank \<Rightarrow> Card" where
  "new_Card s r = \<lparr>suit = s, rank = r\<rparr>"

definition card_id :: "Card \<Rightarrow> string" where
  "card_id c = rank_str (rank c) @ ''_'' @ suit_str (suit c)"

fun getValue :: "Card \<Rightarrow> nat" where
  "getValue c =
     (case rank c of
        RA \<Rightarrow> 1 | RJ \<Rightarrow> 11 | RQ \<Rightarrow> 12 | RK \<Rightarrow> 13
      | R2 \<Rightarrow> 2 | R3 \<Rightarrow> 3 | R4 \<Rightarrow> 4 | R5 \<Rightarrow> 5 | R6 \<Rightarrow> 6
      | R7 \<Rightarrow> 7 | R8 \<Rightarrow> 8 | R9 \<Rightarrow> 9 | R10 \<Rightarrow> 10)"

fun suitNames :: "suit \<Rightarrow> string" where
  "suitNames Hearts = ''Corazones''"
| "suitNames Diamonds = ''Diamantes''"
| "suitNames Clubs = ''Tr'' @ [CHR 0xE9] @ ''boles''"
| "suitNames Spades = ''Picas''"

fun rankNames :: "rank \<Rightarrow> string option" where
  "rankNames RA = Some ''As''"
| "rankNames RJ = Some ''Jota''"
| "rankNames RQ = Some ''Reina''"
| "rankNames RK = Some ''Rey''"
| "rankNames _ = None"

definition getFullName :: "Card \<Rightarrow> string" where
  "getFullName c =
     (let rankName = (case rankNames (rank c) of Some n \<Rightarrow> n | None \<Rightarrow> rank_str (rank c));
          suitName = suitNames (suit c)
      in rankName @ '' de '' @ suitName)"

definition isFaceCard :: "Card \<Rightarrow> bool" where
  "isFaceCard c = (rank c \<in> set [RJ, RQ, RK])"

definition isAce :: "Card \<Rightarrow> bool" where
  "isAce c = (rank c = RA)"

definition isRed :: "Card \<Rightarrow> bool" where
  "isRed c = (suit c \<in> set [Hearts, Diamonds])"

definition isBlack :: "Card \<Rightarrow> bool" where
  "isBlack c = (suit c \<in> set [Clubs, Spades])"

text \<open>The plain object that \<open>Card.toJSON\<close> returns.\<close>

record card_json =
  j_id :: string
  j_suit :: suit
  j_rank :: rank
  j_value :: nat
  j_fullName :: string
  j_isFaceCard :: bool
  j_isAce :: bool
  j_isRed :: bool
  j_isBlack :: bool

definition Card_toJSON :: "Card \<Rightarrow> card_json" where
  "Card_toJSON c =
     \<lparr>j_id = card_id c, j_suit = suit c, j_rank = rank c, j_value = getValue c,
      j_fullName = getFullName c, j_isFaceCard = isFaceCard c, j_isAce = isAce c,
      j_isRed = isRed c, j_isBlack = isBlack c\<rparr>"

definition Card_fromJSON :: "card_json \<Rightarrow> Card" where
  "Card_fromJSON cardData = new_Card (j_suit cardData) (j_rank cardData)"

subsection \<open>Game: the session\<close>

datatype status = Waiting | Started | Ended

text \<open>
  The messages of the errors thrown by \<open>Game\<close> and by the two use cases; one
  constructor for each message, \<open>error_message\<close> gives the text. \<open>NullMessage\<close> is
  \<open>new Error(null)\<close>, and \<open>TypeError\<close> the error that JavaScript itself throws on
  reading a property of \<open>undefined\<close> or \<open>null\<close>.
\<close>

datatype error =
    JoinAfterStart
  | PlayerAlreadyInGame
  | GameFull
  | AlreadyStartedOrEnded
  | NotEnoughPlayers
  | GameNotStarted
  | NotPlayersTurn
  | PlayerNotInGame
  | MaxSavedCards
  | VenganzaOnlyAtEnd
  | NoVenganzaCards
  | TargetNotInGame
  | GameCodeRequired
  | PlayerIdRequired
  | GameNotFound
  | NoMoreCards
  | CardIdRequired
  | InvalidCardType
  | CardNotSaved
  | NotBrincoCard
  | NotMoveCard
  | OnlyDuringGame
  | TargetRequired
  | NullMessage
  | TypeError

fun error_message :: "error \<Rightarrow> string option" where
  "error_message JoinAfterStart = Some ''No se puede unir a una partida que ya ha comenzado''"
| "error_message PlayerAlreadyInGame = Some (''El jugador ya est'' @ [CHR 0xE1] @ '' en la partida'')"
| "error_message GameFull =
     Some (''La partida est'' @ [CHR 0xE1] @ '' completa (m'' @ [CHR 0xE1] @ ''ximo 8 jugadores)'')"
| "error_message AlreadyStartedOrEnded = Some ''La partida ya ha comenzado o ha terminado''"
| "error_message NotEnoughPlayers = Some ''Se necesitan al menos 2 jugadores para iniciar''"
| "error_message GameNotStarted = Some ''La partida no ha comenzado''"
| "error_message NotPlayersTurn = Some ''No es el turno de este jugador''"
| "error_message PlayerNotInGame = Some (''El jugador no est'' @ [CHR 0xE1] @ '' en la partida'')"
| "error_message MaxSavedCards =
     Some (''El jugador ya tiene el m'' @ [CHR 0xE1] @ ''ximo de cartas guardadas (3)'')"
| "error_message VenganzaOnlyAtEnd = Some ''La venganza solo se puede usar al final del juego''"
| "error_message NoVenganzaCards = Some ''Este jugador no tiene cartas de venganza''"
| "error_message TargetNotInGame =
     Some (''El jugador objetivo no est'' @ [CHR 0xE1] @ '' en la partida'')"
| "error_message GameCodeRequired = Some (''El c'' @ [CHR 0xF3] @ ''digo de partida es requerido'')"
| "error_message PlayerIdRequired = Some ''El ID del jugador es requerido''"
| "error_message GameNotFound = Some ''Partida no encontrada''"
| "error_message NoMoreCards = Some (''No hay m'' @ [CHR 0xE1] @ ''s cartas en la baraja'')"
| "error_message CardIdRequired = Some ''El ID de la carta es requerido''"
| "error_message InvalidCardType = Some (''Tipo de carta inv'' @ [CHR 0xE1] @ ''lido'')"
| "error_message CardNotSaved = Some (''La carta no est'' @ [CHR 0xE1] @ '' guardada'')"
| "error_message NotBrincoCard = Some ''Esta carta no es una carta de brinco''"
| "error_message NotMoveCard = Some ''Esta carta no es una carta de movimiento''"
| "error_message OnlyDuringGame = Some ''Solo se pueden activar cartas durante la partida''"
| "error_message TargetRequired = Some ''Se requiere un jugador objetivo para la venganza''"
| "error_message NullMessage = Some ''null''"
| "error_message TypeError = None"

text \<open>The plain objects pushed to \<open>cupContent\<close>, \<open>venganzaCards\<close> and \<open>history\<close>.\<close>

record cup_entry =
  c_playerId :: string
  c_kingNumber :: nat
  c_timestamp :: nat

record venganza_entry =
  v_playerId :: string
  v_card :: card_json
  v_timestamp :: nat

text \<open>
  A history entry has the keys \<open>card\<close>, \<open>playerId\<close>, \<open>timestamp\<close>, \<open>rule\<close> and, by its
  kind, \<open>kingsCount\<close> (a draw; \<open>undefined\<close> unless the card is a K), \<open>isActivated\<close>
  (an activation) or \<open>isVenganza\<close> and \<open>targetPlayerId\<close> (a venganza). A flag that the
  entry does not have is \<open>False\<close>.
\<close>

record history_entry =
  h_card :: card_json
  h_playerId :: string
  h_timestamp :: nat
  h_rule :: "string option"
  h_kingsCount :: "nat option"
  h_isActivated :: bool
  h_isVenganza :: bool
  h_targetPlayerId :: "string option"

text \<open>
  The fields of \<open>Game\<close>. \<open>rules\<close> is an object keyed by the rank's string and
  \<open>savedCards\<close> an object keyed by the player's id.
\<close>

record game =
  code :: string
  host :: string
  players :: "string list"
  deck :: "Card list"
  history :: "history_entry list"
  rules :: "string \<rightharpoonup> string"
  status :: status
  currentTurn :: nat
  createdAt :: nat
  startedAt :: "nat option"
  endedAt :: "nat option"
  savedCards :: "string \<rightharpoonup> card_json list"
  kingsCount :: nat
  cupContent :: "cup_entry list"
  venganzaCards :: "venganza_entry list"

definition getDefaultRules :: "string \<rightharpoonup> string" where
  "getDefaultRules = map_of
     [(''A'', ''Venganza - Se usa para hacer tomar a alguien cuando se acabe el juego''),
      (''2'', ''A vos - Toma la persona que sac'' @ [CHR 0xF3] @ '' la carta''),
      (''3'', ''Yo nunca nunca - Las personas alzan 3 dedos y van diciendo cosas que nunca hayan hecho pero que piensen que los dem'' @ [CHR 0xE1] @ ''s s'' @ [CHR 0xED] @ '', para que bajen los dedos. La persona o personas que bajen todos sus dedos deben tomar''),
      (''4'', ''Al m'' @ [CHR 0xE1] @ ''s gato (ojos m'' @ [CHR 0xE1] @ ''s claros) o Mi barquito - '' @ [CHR 0x22] @ ''Mi barquito viene cargado de...'' @ [CHR 0x22] @ '' (ejemplo: marcas de celulares)''),
      (''5'', ''Al brinco - La persona guarda esta carta y cuando quiera usarla cuenta 1,2,3 al brinco y el '' @ [CHR 0xFA] @ ''ltimo que salte toma''),
      (''6'', ''Al que vez - La primera persona a la que veas tiene que tomar''),
      (''7'', ''7 pum - Todo n'' @ [CHR 0xFA] @ ''mero multiplicado o terminado en 7 no se nombra, se dice pum y cambia el sentido de juego''),
      (''8'', ''Al m'' @ [CHR 0xE1] @ ''s joven o Colores - Rojos: al m'' @ [CHR 0xE1] @ ''s peque'' @ [CHR 0xF1] @ ''o de cualquier cosa, Negros: al m'' @ [CHR 0xE1] @ ''s grande de cualquier cosa''),
      (''9'', ''Al que se mueve - La persona guarda esta carta y cuando quiera usarla cuenta 1,2,3 al que se mueve. El que sac'' @ [CHR 0xF3] @ '' la carta puede moverse y ver qui'' @ [CHR 0xE9] @ ''n se mueve para que tome''),
      (''10'', ''Al juez (quien est'' @ [CHR 0xE1] @ '' sirviendo) o Historia - Entre todos forman una historia diciendo una palabra, repitiendo las anteriores y sumando una m'' @ [CHR 0xE1] @ ''s hasta que alguien se equivoque''),
      (''J'', ''El jugador de la izquierda toma''),
      (''Q'', ''El jugador de la derecha toma''),
      (''K'', ''Copa del Rey - 1ra K: llenar 1/4 del vaso con licor, 2da K: a'' @ [CHR 0xF1] @ ''adir m'' @ [CHR 0xE1] @ ''s, 3ra K: completar m'' @ [CHR 0xE1] @ ''s, 4ta K: llenar completamente y tom'' @ [CHR 0xE1] @ ''rselo'')]"

text \<open>
  The constructor. \<open>_createDeck\<close> shuffles the 52 cards with \<open>Math.random\<close>; the
  shuffled deck is the argument \<open>shuffled\<close>.
\<close>

definition new_Game :: "string \<Rightarrow> string \<Rightarrow> Card list \<Rightarrow> nat \<Rightarrow> game" where
  "new_Game c h shuffled now =
     \<lparr>code = c, host = h, players = [h], deck = shuffled, history = [],
      rules = getDefaultRules, status = Waiting, currentTurn = 0, createdAt = now,
      startedAt = None, endedAt = None, savedCards = Map.empty, kingsCount = 0,
      cupContent = [], venganzaCards = []\<rparr>"

definition addPlayer :: "game \<Rightarrow> string \<Rightarrow> error + game" where
  "addPlayer g playerId =
     (if status g \<noteq> Waiting then Inl JoinAfterStart
      else if playerId \<in> set (players g) then Inl PlayerAlreadyInGame
      else if length (players g) \<ge> 8 then Inl GameFull
      else Inr (g\<lparr>players := players g @ [playerId],
                   savedCards := (savedCards g)(playerId \<mapsto> [])\<rparr>))"

text \<open>
  \<open>removePlayer\<close> returns \<open>false\<close> and changes nothing when the player is absent;
  \<open>splice(indexOf(playerId), 1)\<close> removes the first occurrence.
\<close>

definition removePlayer :: "game \<Rightarrow> string \<Rightarrow> bool \<times> game" where
  "removePlayer g playerId =
     (if playerId \<notin> set (players g) then (False, g)
      else
        let g1 = g\<lparr>players := remove1 playerId (players g)\<rparr>;
            g2 = g1\<lparr>savedCards := (savedCards g1)(playerId := None)\<rparr>;
            g3 = (if host g2 = playerId \<and> length (players g2) > 0
                  then g2\<lparr>host := hd (players g2)\<rparr> else g2);
            g4 = (if currentTurn g3 \<ge> length (players g3)
                  then g3\<lparr>currentTurn := 0\<rparr> else g3)
        in (True, g4))"

definition startGame :: "game \<Rightarrow> nat \<Rightarrow> error + game" where
  "startGame g now =
     (if status g \<noteq> Waiting then Inl AlreadyStartedOrEnded
      else if length (players g) < 2 then Inl NotEnoughPlayers
      else Inr (g\<lparr>status := Started, startedAt := Some now, currentTurn := 0,
                   savedCards := fold (\<lambda>playerId m. m(playerId \<mapsto> [])) (players g)
                                      (savedCards g)\<rparr>))"

text \<open>\<open>players[currentTurn]\<close>, which is \<open>undefined\<close> out of range.\<close>

definition getCurrentPlayer :: "game \<Rightarrow> string option" where
  "getCurrentPlayer g =
     (if currentTurn g < length (players g) then Some (players g ! currentTurn g) else None)"

text \<open>
  \<open>nextTurn\<close>. With no player the JavaScript remainder is \<open>NaN\<close>, which no \<open>nat\<close>
  stands for; \<open>drawCard\<close>, the only caller, has by then found the drawing player at
  \<open>players[currentTurn]\<close>, so the list is not empty there.
\<close>

definition nextTurn :: "game \<Rightarrow> game" where
  "nextTurn g =
     (if status g = Started
      then g\<lparr>currentTurn := (currentTurn g + 1) mod length (players g)\<rparr>
      else g)"

definition endGame :: "game \<Rightarrow> nat \<Rightarrow> game" where
  "endGame g now = g\<lparr>status := Ended, endedAt := Some now\<rparr>"

text \<open>
  \<open>drawCard\<close> returns the card popped from the end of the deck, or \<open>null\<close> (after ending
  the game) when the deck is empty.
\<close>

definition drawCard :: "game \<Rightarrow> string \<Rightarrow> nat \<Rightarrow> error + (Card option \<times> game)" where
  "drawCard g playerId now =
     (if status g \<noteq> Started then Inl GameNotStarted
      else if getCurrentPlayer g \<noteq> Some playerId then Inl NotPlayersTurn
      else if length (deck g) = 0 then Inr (None, endGame g now)
      else
        let crd = last (deck g);
            g1 = g\<lparr>deck := butlast (deck g)\<rparr>;
            g2 = (if rank crd = RK
                  then (let k = kingsCount g1 + 1
                        in g1\<lparr>kingsCount := k,
                              cupContent := cupContent g1 @
                                [\<lparr>c_playerId = playerId, c_kingNumber = k, c_timestamp = now\<rparr>]\<rparr>)
                  else g1);
            g3 = (if rank crd = RA
                  then g2\<lparr>venganzaCards := venganzaCards g2 @
                            [\<lparr>v_playerId = playerId, v_card = Card_toJSON crd,
                              v_timestamp = now\<rparr>]\<rparr>
                  else g2);
            historyEntry =
              \<lparr>h_card = Card_toJSON crd, h_playerId = playerId, h_timestamp = now,
               h_rule = rules g3 (rank_str (rank crd)),
               h_kingsCount = (if rank crd = RK then Some (kingsCount g3) else None),
               h_isActivated = False, h_isVenganza = False, h_targetPlayerId = None\<rparr>;
            g4 = g3\<lparr>history := history g3 @ [historyEntry]\<rparr>
        in Inr (Some crd, nextTurn g4))"

text \<open>
  \<open>saveCard\<close>. Reading \<open>length\<close> of \<open>savedCards[playerId]\<close> throws a \<open>TypeError\<close> when
  the player has no entry.
\<close>

definition saveCard :: "game \<Rightarrow> string \<Rightarrow> Card \<Rightarrow> error + game" where
  "saveCard g playerId crd =
     (if playerId \<notin> set (players g) then Inl PlayerNotInGame
      else case savedCards g playerId of
             None \<Rightarrow> Inl TypeError
           | Some cards \<Rightarrow>
               if length cards \<ge> 3 then Inl MaxSavedCards
               else Inr (g\<lparr>savedCards := (savedCards g)(playerId \<mapsto> cards @ [Card_toJSON crd])\<rparr>))"

record venganza_result =
  vr_card :: card_json
  vr_message :: string
  vr_playerId :: string
  vr_targetPlayerId :: string
  vr_timestamp :: nat

definition useVenganza :: "game \<Rightarrow> string \<Rightarrow> string \<Rightarrow> nat \<Rightarrow> error + (venganza_result \<times> game)" where
  "useVenganza g playerId targetPlayerId now =
     (if status g \<noteq> Ended then Inl VenganzaOnlyAtEnd
      else case find (\<lambda>v. v_playerId v = playerId) (venganzaCards g) of
             None \<Rightarrow> Inl NoVenganzaCards
           | Some venganzaCard \<Rightarrow>
               if targetPlayerId \<notin> set (players g) then Inl TargetNotInGame
               else
                 let g1 = g\<lparr>venganzaCards :=
                             filter (\<lambda>v. v_playerId v \<noteq> playerId) (venganzaCards g)\<rparr>;
                     historyEntry =
                       \<lparr>h_card = v_card venganzaCard, h_playerId = playerId, h_timestamp = now,
                        h_rule = Some ''Venganza - Hacer tomar a alguien al final del juego'',
                        h_kingsCount = None, h_isActivated = False, h_isVenganza = True,
                        h_targetPlayerId = Some targetPlayerId\<rparr>;
                     g2 = g1\<lparr>history := history g1 @ [historyEntry]\<rparr>
                 in Inr (\<lparr>vr_card = v_card venganzaCard,
                          vr_message = playerId @ '' usa venganza contra '' @ targetPlayerId,
                          vr_playerId = playerId, vr_targetPlayerId = targetPlayerId,
                          vr_timestamp = now\<rparr>, g2))"

text \<open>
  \<open>activateCard\<close>. \<open>findIndex\<close> gives the first saved card with the id, and
  \<open>splice(cardIndex, 1)\<close> takes it out; looking a card up for a player without an
  entry in \<open>savedCards\<close> throws a \<open>TypeError\<close>.
\<close>

fun findIndex :: "('a \<Rightarrow> bool) \<Rightarrow> 'a list \<Rightarrow> nat option" where
  "findIndex P [] = None"
| "findIndex P (x # xs) = (if P x then Some 0 else map_option Suc (findIndex P xs))"

definition activateCard :: "game \<Rightarrow> string \<Rightarrow> string \<Rightarrow> nat \<Rightarrow> error + (Card \<times> game)" where
  "activateCard g playerId cardId now =
     (if playerId \<notin> set (players g) then Inl PlayerNotInGame
      else case savedCards g playerId of
             None \<Rightarrow> Inl TypeError
           | Some cards \<Rightarrow>
               (case findIndex (\<lambda>c. j_id c = cardId) cards of
                  None \<Rightarrow> Inl CardNotSaved
                | Some cardIndex \<Rightarrow>
                    let cardData = cards ! cardIndex;
                        g1 = g\<lparr>savedCards := (savedCards g)
                               (playerId \<mapsto> take cardIndex cards @ drop (Suc cardIndex) cards)\<rparr>;
                        crd = Card_fromJSON cardData;
                        historyEntry =
                          \<lparr>h_card = Card_toJSON crd, h_playerId = playerId, h_timestamp = now,
                           h_rule = rules g1 (rank_str (rank crd)), h_kingsCount = None,
                           h_isActivated = True, h_isVenganza = False,
                           h_targetPlayerId = None\<rparr>;
                        g2 = g1\<lparr>history := history g1 @ [historyEntry]\<rparr>
                    in Inr (crd, g2)))"

record card_activation =
  ca_card :: card_json
  ca_message :: string
  ca_playerId :: string
  ca_timestamp :: nat

text \<open>
  \<open>activateBrincoCard\<close> and \<open>activateMoveCard\<close> check the rank after \<open>activateCard\<close> has
  taken the card out and written the history entry.
\<close>

definition activateBrincoCard ::
  "game \<Rightarrow> string \<Rightarrow> string \<Rightarrow> nat \<Rightarrow> (error + card_activation) \<times> game" where
  "activateBrincoCard g playerId cardId now =
     (case activateCard g playerId cardId now of
        Inl e \<Rightarrow> (Inl e, g)
      | Inr (crd, g1) \<Rightarrow>
          if rank crd \<noteq> R5 then (Inl NotBrincoCard, g1)
          else (Inr \<lparr>ca_card = Card_toJSON crd,
                     ca_message = ''Carta de brinco activada: 1, 2, 3 '' @ [CHR 0xA1] @ ''AL BRINCO! El '' @ [CHR 0xFA] @ ''ltimo que salte toma.'',
                     ca_playerId = playerId, ca_timestamp = now\<rparr>, g1))"

definition activateMoveCard ::
  "game \<Rightarrow> string \<Rightarrow> string \<Rightarrow> nat \<Rightarrow> (error + card_activation) \<times> game" where
  "activateMoveCard g playerId cardId now =
     (case activateCard g playerId cardId now of
        Inl e \<Rightarrow> (Inl e, g)
      | Inr (crd, g1) \<Rightarrow>
          if rank crd \<noteq> R9 then (Inl NotMoveCard, g1)
          else (Inr \<lparr>ca_card = Card_toJSON crd,
                     ca_message = ''Carta de movimiento activada: 1, 2, 3 '' @ [CHR 0xA1] @ ''AL QUE SE MUEVE! El que se mueva toma.'',
                     ca_playerId = playerId, ca_timestamp = now\<rparr>, g1))"

record kings_cup_status =
  ks_kingsCount :: nat
  ks_cupContent :: "cup_entry list"
  ks_isComplete :: bool
  ks_nextAction :: string

definition getKingsCupStatus :: "game \<Rightarrow> kings_cup_status" where
  "getKingsCupStatus g =
     \<lparr>ks_kingsCount = kingsCount g, ks_cupContent = cupContent g,
      ks_isComplete = (kingsCount g \<ge> 4),
      ks_nextAction = (if kingsCount g < 4 then ''A'' @ [CHR 0xF1] @ ''adir al vaso''
                       else ''Beber todo el vaso'')\<rparr>"

definition isGameOver :: "game \<Rightarrow> bool" where
  "isGameOver g = (status g = Ended \<or> length (deck g) = 0)"

subsection \<open>GameService\<close>

record draw_validation =
  canDraw :: bool
  reason :: "error option"

definition validateCardDraw :: "game \<Rightarrow> string \<Rightarrow> draw_validation" where
  "validateCardDraw g playerId =
     (if status g \<noteq> Started then \<lparr>canDraw = False, reason = Some GameNotStarted\<rparr>
      else if getCurrentPlayer g \<noteq> Some playerId
      then \<lparr>canDraw = False, reason = Some NotPlayersTurn\<rparr>
      else if length (deck g) = 0 then \<lparr>canDraw = False, reason = Some NoMoreCards\<rparr>
      else \<lparr>canDraw = True, reason = None\<rparr>)"

text \<open>
  The neighbours of the current turn. With no player the index is \<open>NaN\<close> and the
  result \<open>undefined\<close>; otherwise the index is in range.
\<close>

definition getNextPlayer :: "game \<Rightarrow> string option" where
  "getNextPlayer g =
     (if players g = [] then None
      else let nextTurn = (currentTurn g + 1) mod length (players g)
           in Some (players g ! nextTurn))"

definition getPreviousPlayer :: "game \<Rightarrow> string option" where
  "getPreviousPlayer g =
     (if players g = [] then None
      else let prevTurn = (int (currentTurn g) - 1 + int (length (players g)))
                            mod int (length (players g))
           in Some (players g ! nat prevTurn))"

definition getLeftPlayer :: "game \<Rightarrow> string option" where
  "getLeftPlayer g = getNextPlayer g"

definition getRightPlayer :: "game \<Rightarrow> string option" where
  "getRightPlayer g = getPreviousPlayer g"

definition getKingsCupMessage :: "nat \<Rightarrow> string" where
  "getKingsCupMessage k =
     (if k = 1 then ''Primera K - Llena 1/4 del vaso con licor''
      else if k = 2 then ''Segunda K - A'' @ [CHR 0xF1] @ ''ade m'' @ [CHR 0xE1] @ ''s al vaso''
      else if k = 3 then ''Tercera K - Completa m'' @ [CHR 0xE1] @ ''s el vaso''
      else if k = 4
      then ''Cuarta K - Llena completamente el vaso y t'' @ [CHR 0xF3] @ ''matelo todo''
      else ''Copa del Rey completada'')"

record rule_result =
  action :: "string option"
  targetPlayer :: "string option"
  message :: "string option"
  requiresUserInput :: bool
  options :: "string list option"

definition rule_result0 :: rule_result where
  "rule_result0 =
     \<lparr>action = None, targetPlayer = None, message = None, requiresUserInput = False,
      options = None\<rparr>"

fun applyCardRule :: "game \<Rightarrow> Card \<Rightarrow> string \<Rightarrow> rule_result" where
  "applyCardRule g crd playerId =
     (case rank crd of
        RA \<Rightarrow> rule_result0\<lparr>action := Some ''venganza_saved'',
                 message := Some ''Carta de venganza guardada para el final del juego''\<rparr>
      | R2 \<Rightarrow> rule_result0\<lparr>action := Some ''drink_self'', targetPlayer := Some playerId,
                 message := Some (''A vos - Toma la persona que sac'' @ [CHR 0xF3] @ '' la carta'')\<rparr>
      | R3 \<Rightarrow> rule_result0\<lparr>action := Some ''yo_nunca_nunca'',
                 message := Some ''Yo nunca nunca - Alzen 3 dedos y empiecen el juego'',
                 requiresUserInput := True\<rparr>
      | R4 \<Rightarrow> rule_result0\<lparr>action := Some ''choose_rule'',
                 message := Some ''Elige la regla para el 4'', requiresUserInput := True,
                 options := Some [''Al m'' @ [CHR 0xE1] @ ''s gato (ojos m'' @ [CHR 0xE1] @ ''s claros)'',
                                  ''Mi barquito'']\<rparr>
      | R5 \<Rightarrow> rule_result0\<lparr>action := Some ''card_saved'',
                 message := Some (''Carta Al brinco guardada - '' @ [CHR 0xDA] @ ''sala cuando quieras'')\<rparr>
      | R6 \<Rightarrow> rule_result0\<lparr>action := Some ''drink_first_seen'',
                 message := Some ''Al que vez - La primera persona a la que veas tiene que tomar'',
                 requiresUserInput := True\<rparr>
      | R7 \<Rightarrow> rule_result0\<lparr>action := Some ''siete_pum'',
                 message := Some (''7 pum - Empiecen a contar, los n'' @ [CHR 0xFA] @ ''meros con 7 se dicen PUM''),
                 requiresUserInput := True\<rparr>
      | R8 \<Rightarrow> rule_result0\<lparr>action := Some ''choose_rule'',
                 message := Some ''Elige la regla para el 8'', requiresUserInput := True,
                 options := Some [''Al m'' @ [CHR 0xE1] @ ''s joven'',
                                  ''Colores (rojos: m'' @ [CHR 0xE1] @ ''s peque'' @ [CHR 0xF1] @ ''o, negros: m'' @ [CHR 0xE1] @ ''s grande)'']\<rparr>
      | R9 \<Rightarrow> rule_result0\<lparr>action := Some ''card_saved'',
                 message := Some (''Carta Al que se mueve guardada - '' @ [CHR 0xDA] @ ''sala cuando quieras'')\<rparr>
      | R10 \<Rightarrow> rule_result0\<lparr>action := Some ''choose_rule'',
                 message := Some ''Elige la regla para el 10'', requiresUserInput := True,
                 options := Some [''Al juez (quien est'' @ [CHR 0xE1] @ '' sirviendo)'', ''Historia'']\<rparr>
      | RJ \<Rightarrow> rule_result0\<lparr>action := Some ''drink_left'', targetPlayer := getLeftPlayer g,
                 message := Some ''El jugador de la izquierda toma''\<rparr>
      | RQ \<Rightarrow> rule_result0\<lparr>action := Some ''drink_right'', targetPlayer := getRightPlayer g,
                 message := Some ''El jugador de la derecha toma''\<rparr>
      | RK \<Rightarrow> rule_result0\<lparr>action := Some ''kings_cup'',
                 message := Some (getKingsCupMessage (kingsCount g))\<rparr>)"

definition shouldGameEnd :: "game \<Rightarrow> bool" where
  "shouldGameEnd g = (length (deck g) = 0 \<or> length (players g) \<le> 1)"

subsection \<open>The use case DrawCard\<close>

text \<open>
  The data of a successful response. The field \<open>game\<close> of the response
  (\<open>getGameSummary\<close>, a projection of the saved game) is not part of the record; the
  three optional fields are the information added by the rank of the card.
\<close>

record draw_result =
  dr_card :: card_json
  dr_rule :: rule_result
  dr_nextPlayer :: "string option"
  dr_cardsRemaining :: nat
  dr_isGameOver :: bool
  dr_venganzaInfo :: "(string \<times> nat) option"
  dr_kingsCupInfo :: "kings_cup_status option"
  dr_savedCardInfo :: "(string \<times> card_json list) option"

text \<open>
  \<open>DrawCard.execute\<close>. \<open>found\<close> is what \<open>gameRepository.findByCode(gameCode)\<close> returns.
  The result is the response (\<open>Inl\<close>: \<open>success: false\<close> with the error caught) and the
  game object after the call; on success this object is the one handed to
  \<open>gameRepository.save\<close>, which is taken to return it, and on failure nothing is saved.
\<close>

definition DrawCard_execute ::
  "game option \<Rightarrow> string \<Rightarrow> string \<Rightarrow> nat \<Rightarrow> (error + draw_result) \<times> game option" where
  "DrawCard_execute found gameCode playerId now =
     (if gameCode = [] then (Inl GameCodeRequired, found)
      else if playerId = [] then (Inl PlayerIdRequired, found)
      else case found of
        None \<Rightarrow> (Inl GameNotFound, None)
      | Some g \<Rightarrow>
          let validation = validateCardDraw g playerId in
          if \<not> canDraw validation
          then (Inl (case reason validation of Some e \<Rightarrow> e | None \<Rightarrow> NullMessage), Some g)
          else (case drawCard g playerId now of
            Inl e \<Rightarrow> (Inl e, Some g)
          | Inr (drawnCard, g1) \<Rightarrow>
              let g2 = (if shouldGameEnd g1 then endGame g1 now else g1) in
              (case drawnCard of
                 None \<Rightarrow> (Inl TypeError, Some g2)
               | Some crd \<Rightarrow>
                   let ruleResult = applyCardRule g2 crd playerId;
                       updatedGame = g2;
                       result =
                         \<lparr>dr_card = Card_toJSON crd, dr_rule = ruleResult,
                          dr_nextPlayer = getCurrentPlayer updatedGame,
                          dr_cardsRemaining = length (deck updatedGame),
                          dr_isGameOver = isGameOver updatedGame,
                          dr_venganzaInfo =
                            (if rank crd = RA
                             then Some (''Carta de venganza guardada para el final del juego'',
                                        length (venganzaCards updatedGame))
                             else None),
                          dr_kingsCupInfo =
                            (if rank crd = RK then Some (getKingsCupStatus updatedGame) else None),
                          dr_savedCardInfo =
                            (if rank crd = R5 \<or> rank crd = R9
                             then Some (''Carta '' @ rank_str (rank crd) @ '' guardada para uso posterior'',
                                        (case savedCards updatedGame playerId of
                                           Some cs \<Rightarrow> cs | None \<Rightarrow> []))
                             else None)\<rparr>
                   in (Inr result, Some updatedGame))))"

subsection \<open>The use case ActivateCard\<close>

text \<open>
  The data of a successful response: the description of the activation (its keys
  \<open>countdown\<close>, \<open>activatorCanMove\<close> and \<open>targetPlayer\<close> are there for some types of card
  only), the card and the time. The field \<open>game\<close> of the response (\<open>getGameSummary\<close>) is
  not part of the record.
\<close>

record activation_info =
  a_type :: string
  a_message :: string
  a_instruction :: string
  a_countdown :: "string option"
  a_activatorCanMove :: "bool option"
  a_targetPlayer :: "string option"

record activate_result =
  ar_activation :: activation_info
  ar_card :: card_json
  ar_timestamp :: nat

text \<open>
  \<open>ActivateCard.execute\<close>, the only caller of \<open>useVenganza\<close>. \<open>found\<close> is what
  \<open>gameRepository.findByCode(gameCode)\<close> returns, \<open>targetPlayerId\<close> is \<open>null\<close> by
  default. The result is the response and the game object after the call, as for
  \<open>DrawCard_execute\<close>.
\<close>

definition ActivateCard_execute ::
  "game option \<Rightarrow> string \<Rightarrow> string \<Rightarrow> string \<Rightarrow> string \<Rightarrow> string option \<Rightarrow> nat
   \<Rightarrow> (error + activate_result) \<times> game option" where
  "ActivateCard_execute found gameCode playerId cardId cardType targetPlayerId now =
     (if gameCode = [] then (Inl GameCodeRequired, found)
      else if playerId = [] then (Inl PlayerIdRequired, found)
      else if cardId = [] then (Inl CardIdRequired, found)
      else if cardType = [] \<or> cardType \<notin> set [''brinco'', ''movement'', ''venganza'']
      then (Inl InvalidCardType, found)
      else case found of
        None \<Rightarrow> (Inl GameNotFound, None)
      | Some g \<Rightarrow>
          if playerId \<notin> set (players g) then (Inl PlayerNotInGame, Some g)
          else if cardType = ''brinco''
          then (if status g \<noteq> Started then (Inl OnlyDuringGame, Some g)
                else (case activateBrincoCard g playerId cardId now of
                        (Inl e, g1) \<Rightarrow> (Inl e, Some g1)
                      | (Inr activationResult, g1) \<Rightarrow>
                          (Inr \<lparr>ar_activation =
                                  \<lparr>a_type = ''brinco'', a_message = ca_message activationResult,
                                   a_instruction = [CHR 0xA1] @ ''Todos salten! El '' @ [CHR 0xFA] @ ''ltimo en saltar toma'',
                                   a_countdown = Some (''1, 2, 3 '' @ [CHR 0xA1] @ ''AL BRINCO!''),
                                   a_activatorCanMove = None, a_targetPlayer = None\<rparr>,
                                ar_card = ca_card activationResult, ar_timestamp = now\<rparr>,
                           Some g1)))
          else if cardType = ''movement''
          then (if status g \<noteq> Started then (Inl OnlyDuringGame, Some g)
                else (case activateMoveCard g playerId cardId now of
                        (Inl e, g1) \<Rightarrow> (Inl e, Some g1)
                      | (Inr activationResult, g1) \<Rightarrow>
                          (Inr \<lparr>ar_activation =
                                  \<lparr>a_type = ''movement'', a_message = ca_message activationResult,
                                   a_instruction = ''Qu'' @ [CHR 0xE9] @ ''dense inm'' @ [CHR 0xF3] @ ''viles. El que se mueva toma'',
                                   a_countdown = Some (''1, 2, 3 '' @ [CHR 0xA1] @ ''AL QUE SE MUEVE!''),
                                   a_activatorCanMove = Some True, a_targetPlayer = None\<rparr>,
                                ar_card = ca_card activationResult, ar_timestamp = now\<rparr>,
                           Some g1)))
          else (if status g \<noteq> Ended then (Inl VenganzaOnlyAtEnd, Some g)
                else (case targetPlayerId of
                        None \<Rightarrow> (Inl TargetRequired, Some g)
                      | Some target \<Rightarrow>
                          if target = [] then (Inl TargetRequired, Some g)
                          else (case useVenganza g playerId target now of
                                  Inl e \<Rightarrow> (Inl e, Some g)
                                | Inr (activationResult, g1) \<Rightarrow>
                                    (Inr \<lparr>ar_activation =
                                            \<lparr>a_type = ''venganza'',
                                             a_message = vr_message activationResult,
                                             a_instruction =
                                               playerId @ '' usa venganza contra '' @ target,
                                             a_countdown = None, a_activatorCanMove = None,
                                             a_targetPlayer = Some target\<rparr>,
                                          ar_card = vr_card activationResult,
                                          ar_timestamp = now\<rparr>,
                                     Some g1)))))"

subsection \<open>Game: statistics and the export\<close>

text \<open>
  \<open>getStats\<close> fills the object \<open>cardsPerPlayer\<close> player by player and then walks
  \<open>Object.entries\<close> of it. The entries of an object come in the order of its own
  property keys: the keys that are array indices (canonical decimal numerals below
  \<open>2^32 - 1\<close>) in ascending order, then the other keys in the order of their first
  assignment.
\<close>

definition is_digit :: "char \<Rightarrow> bool" where
  "is_digit c = (48 \<le> (of_char c :: nat) \<and> (of_char c :: nat) \<le> 57)"

definition dec_value :: "string \<Rightarrow> nat" where
  "dec_value s = foldl (\<lambda>n c. 10 * n + ((of_char c :: nat) - 48)) 0 s"

definition is_array_index :: "string \<Rightarrow> bool" where
  "is_array_index s =
     (s \<noteq> [] \<and> list_all is_digit s \<and> (s = ''0'' \<or> hd s \<noteq> CHR ''0'')
      \<and> dec_value s < 4294967295)"

definition own_keys :: "string list \<Rightarrow> string list" where
  "own_keys assigned =
     (let ks = rev (remdups (rev assigned))
      in sort_key dec_value (filter is_array_index ks)
         @ filter (\<lambda>k. \<not> is_array_index k) ks)"

record stats =
  totalCards :: nat
  cardsPerPlayer :: "(string \<times> nat) list"
  duration :: "int option"
  mostActivePlayer :: "string option"

fun most_active :: "(string \<times> nat) list \<Rightarrow> nat \<Rightarrow> string option \<Rightarrow> string option" where
  "most_active [] maxCards best = best"
| "most_active ((playerId, count) # es) maxCards best =
     (if count > maxCards then most_active es count (Some playerId)
      else most_active es maxCards best)"

definition getStats :: "game \<Rightarrow> stats" where
  "getStats g =
     (let perPlayer =
            map (\<lambda>playerId. (playerId, length (filter (\<lambda>h. h_playerId h = playerId) (history g))))
                (own_keys (players g))
      in \<lparr>totalCards = length (history g),
          cardsPerPlayer = perPlayer,
          duration = (case (startedAt g, endedAt g) of
                        (Some s, Some e) \<Rightarrow> Some (int e - int s)
                      | _ \<Rightarrow> None),
          mostActivePlayer = most_active perPlayer 0 None\<rparr>)"

text \<open>
  The values that occur in the object returned by \<open>toJSON\<close> and read by \<open>fromJSON\<close>.
  The object itself is the list of its keys with their values, in the order of the
  object literal.
\<close>

datatype js_value =
    JUndefined
  | JNull
  | JBool bool
  | JNum nat
  | JStr string
  | JDate nat
  | JStatus status
  | JPlayers "string list"
  | JDeck "card_json list"
  | JHistory "history_entry list"
  | JRules "string \<rightharpoonup> string"
  | JSavedCards "string \<rightharpoonup> card_json list"
  | JCupContent "cup_entry list"
  | JVenganzaCards "venganza_entry list"
  | JStats stats
  | JKingsCupStatus kings_cup_status

definition js_date :: "nat option \<Rightarrow> js_value" where
  "js_date d = (case d of Some t \<Rightarrow> JDate t | None \<Rightarrow> JNull)"

definition toJSON :: "game \<Rightarrow> (string \<times> js_value) list" where
  "toJSON g =
     [(''code'', JStr (code g)),
      (''host'', JStr (host g)),
      (''players'', JPlayers (players g)),
      (''deck'', JDeck (map Card_toJSON (deck g))),
      (''history'', JHistory (history g)),
      (''rules'', JRules (rules g)),
      (''status'', JStatus (status g)),
      (''currentTurn'', JNum (currentTurn g)),
      (''currentPlayer'', (case getCurrentPlayer g of Some p \<Rightarrow> JStr p | None \<Rightarrow> JUndefined)),
      (''createdAt'', JDate (createdAt g)),
      (''startedAt'', js_date (startedAt g)),
      (''endedAt'', js_date (endedAt g)),
      (''savedCards'', JSavedCards (savedCards g)),
      (''cardsRemaining'', JNum (length (deck g))),
      (''isGameOver'', JBool (isGameOver g)),
      (''stats'', (if status g = Ended then JStats (getStats g) else JNull)),
      (''kingsCount'', JNum (kingsCount g)),
      (''cupContent'', JCupContent (cupContent g)),
      (''kingsCupStatus'', JKingsCupStatus (getKingsCupStatus g)),
      (''venganzaCards'', JVenganzaCards (venganzaCards g)),
      (''availableVenganzas'', JNum (length (venganzaCards g)))]"

text \<open>
  \<open>fromJSON\<close> reads each key as \<open>gameData.key || default\<close>: a key that is absent or
  whose value is falsy gives the default. The fields of \<open>game\<close> are typed, so a value
  of another kind than its field has no counterpart here, and the readers answer
  \<open>None\<close> for it; \<open>fromJSON\<close> is then \<open>None\<close> as well.
\<close>

fun falsy :: "js_value \<Rightarrow> bool" where
  "falsy JUndefined = True"
| "falsy JNull = True"
| "falsy (JBool b) = (\<not> b)"
| "falsy (JNum n) = (n = 0)"
| "falsy (JStr s) = (s = [])"
| "falsy _ = False"

definition or_default :: "(js_value \<Rightarrow> 'a option) \<Rightarrow> 'a \<Rightarrow> js_value option \<Rightarrow> 'a option" where
  "or_default rd dflt v =
     (case v of None \<Rightarrow> Some dflt | Some x \<Rightarrow> if falsy x then Some dflt else rd x)"

fun as_str :: "js_value \<Rightarrow> string option" where
  "as_str (JStr s) = Some s" | "as_str _ = None"

fun as_num :: "js_value \<Rightarrow> nat option" where
  "as_num (JNum n) = Some n" | "as_num _ = None"

text \<open>\<open>new Date(v)\<close> of a date, or of a number of milliseconds.\<close>

fun as_date :: "js_value \<Rightarrow> nat option" where
  "as_date (JDate t) = Some t" | "as_date (JNum t) = Some t" | "as_date _ = None"

fun as_status :: "js_value \<Rightarrow> status option" where
  "as_status (JStatus s) = Some s" | "as_status _ = None"

fun as_players :: "js_value \<Rightarrow> string list option" where
  "as_players (JPlayers ps) = Some ps" | "as_players _ = None"

fun as_deck :: "js_value \<Rightarrow> card_json list option" where
  "as_deck (JDeck cs) = Some cs" | "as_deck _ = None"

fun as_history :: "js_value \<Rightarrow> history_entry list option" where
  "as_history (JHistory hs) = Some hs" | "as_history _ = None"

fun as_rules :: "js_value \<Rightarrow> (string \<rightharpoonup> string) option" where
  "as_rules (JRules r) = Some r" | "as_rules _ = None"

fun as_savedCards :: "js_value \<Rightarrow> (string \<rightharpoonup> card_json list) option" where
  "as_savedCards (JSavedCards m) = Some m" | "as_savedCards _ = None"

fun as_cupContent :: "js_value \<Rightarrow> cup_entry list option" where
  "as_cupContent (JCupContent cs) = Some cs" | "as_cupContent _ = None"

fun as_venganzaCards :: "js_value \<Rightarrow> venganza_entry list option" where
  "as_venganzaCards (JVenganzaCards vs) = Some vs" | "as_venganzaCards _ = None"

definition fromJSON :: "nat \<Rightarrow> (string \<times> js_value) list \<Rightarrow> game option" where
  "fromJSON now gameData =
     (let d = map_of gameData in
      do {
        c \<leftarrow> Option.bind (d ''code'') as_str;
        h \<leftarrow> Option.bind (d ''host'') as_str;
        ps \<leftarrow> or_default as_players [] (d ''players'');
        dk \<leftarrow> or_default as_deck [] (d ''deck'');
        hs \<leftarrow> or_default as_history [] (d ''history'');
        rs \<leftarrow> or_default as_rules getDefaultRules (d ''rules'');
        st \<leftarrow> or_default as_status Waiting (d ''status'');
        ct \<leftarrow> or_default as_num 0 (d ''currentTurn'');
        cr \<leftarrow> or_default as_date now (d ''createdAt'');
        sa \<leftarrow> or_default (map_option Some \<circ> as_date) None (d ''startedAt'');
        en \<leftarrow> or_default (map_option Some \<circ> as_date) None (d ''endedAt'');
        sc \<leftarrow> or_default as_savedCards Map.empty (d ''savedCards'');
        kc \<leftarrow> or_default as_num 0 (d ''kingsCount'');
        cc \<leftarrow> or_default as_cupContent [] (d ''cupContent'');
        vc \<leftarrow> or_default as_venganzaCards [] (d ''venganzaCards'');
        Some \<lparr>code = c, host = h, players = ps, deck = map Card_fromJSON dk, history = hs,
              rules = rs, status = st, currentTurn = ct, createdAt = cr, startedAt = sa,
              endedAt = en, savedCards = sc, kingsCount = kc, cupContent = cc,
              venganzaCards = vc\<rparr>
      })"

subsection \<open>GameValidationService\<close>






subsection \<open>Sessions used as concrete inputs\<close>

text \<open>
  \<open>playing h others d\<close> is the session that \<open>new Game\<close>, \<open>addPlayer\<close> for each of
  \<open>others\<close> and \<open>startGame\<close> build, with \<open>d\<close> as the cards left in the deck (the last
  element is drawn next).
\<close>

definition playing :: "string \<Rightarrow> string list \<Rightarrow> Card list \<Rightarrow> game" where
  "playing h others d =
     \<lparr>code = ''ABC123'', host = h, players = h # others, deck = d, history = [],
      rules = getDefaultRules, status = Started, currentTurn = 0, createdAt = 0,
      startedAt = Some 10, endedAt = None,
      savedCards = fold (\<lambda>playerId m. m(playerId \<mapsto> [])) (h # others) Map.empty,
      kingsCount = 0, cupContent = [], venganzaCards = []\<rparr>"

text \<open>Three players, \<open>a\<close> to draw the five of hearts.\<close>

definition game_five :: game where
  "game_five = playing ''a'' [''b'', ''c''] [new_Card Clubs R2, new_Card Hearts R5]"

text \<open>Two players, three K drawn so far, \<open>a\<close> to draw the fourth.\<close>

definition game_three_kings :: game where
  "game_three_kings =
     (playing ''a'' [''b''] [new_Card Diamonds R3, new_Card Hearts R2, new_Card Spades RK])
       \<lparr>kingsCount := 3,
        cupContent := [\<lparr>c_playerId = ''a'', c_kingNumber = 1, c_timestamp = 100\<rparr>,
                       \<lparr>c_playerId = ''b'', c_kingNumber = 2, c_timestamp = 200\<rparr>,
                       \<lparr>c_playerId = ''a'', c_kingNumber = 3, c_timestamp = 300\<rparr>]\<rparr>"

text \<open>An ended session in which \<open>p\<close> holds two venganza cards.\<close>

definition game_two_aces :: game where
  "game_two_aces =
     (playing ''p'' [''q''] [new_Card Clubs R2])
       \<lparr>status := Ended, endedAt := Some 5000,
        venganzaCards :=
          [\<lparr>v_playerId = ''p'', v_card = Card_toJSON (new_Card Spades RA), v_timestamp = 100\<rparr>,
           \<lparr>v_playerId = ''p'', v_card = Card_toJSON (new_Card Hearts RA), v_timestamp = 200\<rparr>]\<rparr>"

text \<open>Three players, \<open>a\<close> to draw a J, and the same with a Q.\<close>

definition game_jack :: game where
  "game_jack = playing ''a'' [''b'', ''c''] [new_Card Clubs R2, new_Card Hearts RJ]"

definition game_queen :: game where
  "game_queen = playing ''a'' [''b'', ''c''] [new_Card Clubs R2, new_Card Hearts RQ]"

text \<open>Three players, \<open>a\<close> to draw a seven, then \<open>b\<close> a two.\<close>

definition game_seven :: game where
  "game_seven =
     playing ''a'' [''b'', ''c''] [new_Card Diamonds R3, new_Card Clubs R2, new_Card Hearts R7]"


text \<open>\<open>p\<close> holds three saved cards.\<close>

definition game_full_hand :: game where
  "game_full_hand =
     (playing ''p'' [''q''] [new_Card Clubs R2])
       \<lparr>savedCards :=
          [''p'' \<mapsto> [Card_toJSON (new_Card Hearts R5), Card_toJSON (new_Card Clubs R9),
                      Card_toJSON (new_Card Spades R5)],
           ''q'' \<mapsto> []]\<rparr>"

text \<open>\<open>p\<close>, who is not the host, holds a venganza card and a saved card.\<close>

definition game_leaver :: game where
  "game_leaver =
     (playing ''h'' [''p'', ''q''] [new_Card Clubs R2])
       \<lparr>currentTurn := 2,
        savedCards := [''h'' \<mapsto> [], ''p'' \<mapsto> [Card_toJSON (new_Card Hearts R5)], ''q'' \<mapsto> []],
        venganzaCards :=
          [\<lparr>v_playerId = ''p'', v_card = Card_toJSON (new_Card Spades RA), v_timestamp = 100\<rparr>]\<rparr>"

subsection \<open>The turn rule in the words of the specification\<close>

text \<open>
  The specification advances the turn by a direction that is \<open>+1\<close> or \<open>-1\<close>:
  \<open>turnIndex \<leftarrow> (turnIndex + direction + n) mod n\<close>.
\<close>

definition spec_nextTurn :: "nat \<Rightarrow> int \<Rightarrow> nat \<Rightarrow> nat" where
  "spec_nextTurn turnIndex direction n = nat ((int turnIndex + direction + int n) mod int n)"

subsection \<open>The invariant of the participant list\<close>

definition players_ok :: "game \<Rightarrow> bool" where
  "players_ok g =
     (host g \<in> set (players g) \<and> 1 \<le> length (players g) \<and> length (players g) \<le> 8
      \<and> distinct (players g))"


section \<open>Properties\<close>

declare applyCardRule.simps [simp del]
declare getValue.simps [simp del]

lemmas run_defs = DrawCard_execute_def validateCardDraw_def getCurrentPlayer_def drawCard_def
  new_Card_def Let_def nextTurn_def shouldGameEnd_def endGame_def playing_def isGameOver_def

subsection \<open>The concrete sessions are sessions the methods build\<close>

lemma playing_reachable:
  "addPlayer (new_Game ''ABC123'' ''a'' d 0) ''b''
     = Inr ((new_Game ''ABC123'' ''a'' d 0)
              \<lparr>players := [''a'', ''b''], savedCards := [''b'' \<mapsto> []]\<rparr>)"
  "startGame ((new_Game ''ABC123'' ''a'' d 0)
                \<lparr>players := [''a'', ''b''], savedCards := [''b'' \<mapsto> []]\<rparr>) 10
     = Inr (playing ''a'' [''b''] d)"
  by (auto simp add: addPlayer_def new_Game_def startGame_def playing_def)

subsection \<open>What a draw does\<close>

lemma drawCard_Some:
  assumes "drawCard g p now = Inr (Some c, g1)"
  shows "currentTurn g1 = (currentTurn g + 1) mod length (players g)"
    and "players g1 = players g" and "savedCards g1 = savedCards g" and "status g1 = Started"
    and "getCurrentPlayer g = Some p" and "c = last (deck g)"
  using assms
  by (auto simp add: drawCard_def Let_def nextTurn_def split: if_splits)


lemma DrawCard_execute_success:
  assumes "DrawCard_execute (Some g) gameCode p now = (Inr r, Some g')"
  obtains c g1 where "drawCard g p now = Inr (Some c, g1)"
    and "g' = (if shouldGameEnd g1 then endGame g1 now else g1)"
    and "dr_rule r = applyCardRule g' c p" and "dr_card r = Card_toJSON c"
proof (cases "drawCard g p now")
  case (Inl e)
  with assms show ?thesis
    by (simp add: DrawCard_execute_def Let_def split: if_splits)
next
  case (Inr res)
  obtain oc g1 where res: "res = (oc, g1)" by (cases res)
  show ?thesis
  proof (cases oc)
    case None
    with assms Inr res show ?thesis
      by (simp add: DrawCard_execute_def Let_def split: if_splits)
  next
    case (Some c)
    with assms Inr res have
      "g' = (if shouldGameEnd g1 then endGame g1 now else g1)"
      "dr_rule r = applyCardRule g' c p" "dr_card r = Card_toJSON c"
      by (auto simp add: DrawCard_execute_def Let_def split: if_splits)
    with Inr res Some that show ?thesis by blast
  qed
qed

lemma DrawCard_execute_Inr:
  assumes "\<not> isl (fst (DrawCard_execute (Some g) gameCode p now))"
  obtains r g' where "DrawCard_execute (Some g) gameCode p now = (Inr r, Some g')"
proof -
  obtain res og where eq: "DrawCard_execute (Some g) gameCode p now = (res, og)"
    by (cases "DrawCard_execute (Some g) gameCode p now")
  with assms obtain r where r: "res = Inr r" by (cases res) simp_all
  from eq r have "og \<noteq> None"
    by (auto simp add: DrawCard_execute_def Let_def
             split: if_splits sum.splits option.splits prod.splits)
  then obtain g' where "og = Some g'" by blast
  with eq r that show ?thesis by blast
qed

text \<open>No draw touches \<open>savedCards\<close>, whatever the rank of the card.\<close>

lemma draw_keeps_savedCards:
  assumes "DrawCard_execute (Some g) gameCode p now = (Inr r, Some g')"
  shows "savedCards g' = savedCards g"
proof -
  from assms obtain c g1 where
    d: "drawCard g p now = Inr (Some c, g1)" and
    g': "g' = (if shouldGameEnd g1 then endGame g1 now else g1)"
    by (rule DrawCard_execute_success)
  from g' have "savedCards g' = savedCards g1" by (simp add: endGame_def)
  with drawCard_Some(3) [OF d] show ?thesis by simp
qed

lemma draw_turn:
  assumes "DrawCard_execute (Some g) gameCode p now = (Inr r, Some g')"
  shows "currentTurn g' = (currentTurn g + 1) mod length (players g)"
proof -
  from assms obtain c g1 where
    d: "drawCard g p now = Inr (Some c, g1)" and
    g': "g' = (if shouldGameEnd g1 then endGame g1 now else g1)"
    by (rule DrawCard_execute_success)
  from g' have "currentTurn g' = currentTurn g1" by (simp add: endGame_def)
  with drawCard_Some(1) [OF d] show ?thesis by simp
qed

text \<open>
  The rule of a J or a Q is applied after \<open>drawCard\<close> has advanced the turn: the J
  names the player two places after the drawer, the Q the drawer.
\<close>

lemma drink_left_target:
  assumes ex: "DrawCard_execute (Some g) gameCode p now = (Inr r, Some g')"
      and j: "j_rank (dr_card r) = RJ"
  shows "targetPlayer (dr_rule r)
           = Some (players g ! ((currentTurn g + 2) mod length (players g)))"
proof -
  from ex obtain c g1 where
    d: "drawCard g p now = Inr (Some c, g1)" and
    g': "g' = (if shouldGameEnd g1 then endGame g1 now else g1)" and
    r: "dr_rule r = applyCardRule g' c p" and cj: "dr_card r = Card_toJSON c"
    by (rule DrawCard_execute_success)
  from cj j have rk: "rank c = RJ" by (simp add: Card_toJSON_def)
  from g' have same: "players g' = players g1" "currentTurn g' = currentTurn g1"
    by (simp_all add: endGame_def)
  from drawCard_Some(5) [OF d] have ne: "players g \<noteq> []"
    by (auto simp add: getCurrentPlayer_def split: if_splits)
  from same drawCard_Some(1,2) [OF d] have
    ps: "players g' = players g" and
    ct: "currentTurn g' = (currentTurn g + 1) mod length (players g)" by simp_all
  have "((currentTurn g + 1) mod length (players g) + 1) mod length (players g)
          = (currentTurn g + 2) mod length (players g)"
    by (simp add: mod_Suc_eq)
  with r rk ps ct ne show ?thesis
    by (simp add: applyCardRule.simps rule_result0_def getLeftPlayer_def getNextPlayer_def)
qed

lemma drink_right_target:
  assumes ex: "DrawCard_execute (Some g) gameCode p now = (Inr r, Some g')"
      and q: "j_rank (dr_card r) = RQ"
  shows "targetPlayer (dr_rule r) = Some p"
proof -
  from ex obtain c g1 where
    d: "drawCard g p now = Inr (Some c, g1)" and
    g': "g' = (if shouldGameEnd g1 then endGame g1 now else g1)" and
    r: "dr_rule r = applyCardRule g' c p" and cj: "dr_card r = Card_toJSON c"
    by (rule DrawCard_execute_success)
  from cj q have rk: "rank c = RQ" by (simp add: Card_toJSON_def)
  from g' have same: "players g' = players g1" "currentTurn g' = currentTurn g1"
    by (simp_all add: endGame_def)
  let ?n = "length (players g)" and ?t = "currentTurn g"
  from drawCard_Some(5) [OF d] have lt: "?t < ?n" and cur: "players g ! ?t = p"
    by (auto simp add: getCurrentPlayer_def split: if_splits)
  from same drawCard_Some(1,2) [OF d] have
    ps: "players g' = players g" and ct: "currentTurn g' = (?t + 1) mod ?n" by simp_all
  have "nat ((int ((?t + 1) mod ?n) - 1 + int ?n) mod int ?n) = ?t"
  proof (cases "?t + 1 < ?n")
    case True
    then have "(?t + 1) mod ?n = ?t + 1" by simp
    then have "(int ((?t + 1) mod ?n) - 1 + int ?n) mod int ?n = (int ?t + int ?n) mod int ?n"
      by simp
    also have "\<dots> = int ?t" using lt by simp
    finally show ?thesis by simp
  next
    case False
    with lt have eq: "?t + 1 = ?n" by simp
    then have z: "(?t + 1) mod ?n = 0" by simp
    from eq have "int ?n - 1 = int ?t" by linarith
    then have "(int 0 - 1 + int ?n) mod int ?n = int ?t mod int ?n" by simp
    also have "\<dots> = int ?t" using lt by simp
    finally show ?thesis using z by simp
  qed
  with r rk ps ct lt cur show ?thesis
    by (auto simp add: applyCardRule.simps rule_result0_def getRightPlayer_def
                       getPreviousPlayer_def Let_def)
qed

subsection \<open>What a venganza removes\<close>

lemma useVenganza_removes_all_of_player:
  "useVenganza g p t now = Inr (res, g') \<Longrightarrow>
   venganzaCards g' = filter (\<lambda>v. v_playerId v \<noteq> p) (venganzaCards g)"
  by (auto simp add: useVenganza_def Let_def split: if_splits option.splits)

subsection \<open>Where the invariant of the participant list is kept\<close>

lemma new_Game_players_ok: "players_ok (new_Game c h d now)"
  by (simp add: players_ok_def new_Game_def)

lemma addPlayer_players_ok: "players_ok g \<Longrightarrow> addPlayer g p = Inr g' \<Longrightarrow> players_ok g'"
  by (auto simp add: players_ok_def addPlayer_def split: if_splits)

lemma removePlayer_players_ok:
  assumes ok: "players_ok g" and two: "2 \<le> length (players g)"
  shows "players_ok (snd (removePlayer g p))"
proof (cases "p \<in> set (players g)")
  case False
  with ok show ?thesis by (simp add: removePlayer_def)
next
  case True
  let ?ps = "remove1 p (players g)"
  from ok have d: "distinct (players g)" and h: "host g \<in> set (players g)"
    and le: "length (players g) \<le> 8" by (simp_all add: players_ok_def)
  from True have len1: "length ?ps = length (players g) - 1"
    by (simp add: length_remove1)
  with two have "0 < length ?ps" by linarith
  then have "?ps \<noteq> []" by auto
  with len1 have len: "length ?ps = length (players g) - 1" "?ps \<noteq> []"
    by blast+
  from d have set: "set ?ps = set (players g) - {p}" by simp
  from len have hd: "hd ?ps \<in> set ?ps" by simp
  from True have "snd (removePlayer g p) =
      g\<lparr>players := ?ps, savedCards := (savedCards g)(p := None),
        host := (if host g = p then hd ?ps else host g),
        currentTurn := (if length ?ps \<le> currentTurn g then 0 else currentTurn g)\<rparr>"
    using len by (simp add: removePlayer_def Let_def)
  moreover have "(if host g = p then hd ?ps else host g) \<in> set ?ps"
    using hd h set by auto
  moreover from len1 two le have "1 \<le> length ?ps" "length ?ps \<le> 8" by linarith+
  ultimately show ?thesis
    using d by (simp add: players_ok_def)
qed

subsection \<open>The export read back\<close>

lemma Card_roundtrip: "Card_fromJSON (Card_toJSON c) = c"
  by (simp add: Card_fromJSON_def Card_toJSON_def new_Card_def)

lemma fromJSON_toJSON: "fromJSON now (toJSON g) = Some g"
  by (simp add: fromJSON_def toJSON_def or_default_def js_date_def Card_roundtrip comp_def
                map_idI split: option.splits)

lemma toJSON_no_version: "map_of (toJSON g) ''version'' = None"
  by (simp add: toJSON_def)

subsection \<open>Leaving, and the venganza of a player who has left\<close>

lemma removePlayer_member:
  "p \<in> set (players g) \<Longrightarrow>
   removePlayer g p =
     (True, g\<lparr>players := remove1 p (players g),
              savedCards := (savedCards g)(p := None),
              host := (if host g = p \<and> remove1 p (players g) \<noteq> []
                       then hd (remove1 p (players g)) else host g),
              currentTurn := (if length (remove1 p (players g)) \<le> currentTurn g
                              then 0 else currentTurn g)\<rparr>)"
  by (simp add: removePlayer_def Let_def)

lemma removePlayer_departed:
  "p \<in> set (players g) \<Longrightarrow> distinct (players g) \<Longrightarrow>
   p \<notin> set (players (snd (removePlayer g p)))"
  by (simp add: removePlayer_member)

lemma useVenganza_accepts:
  "status g = Ended \<Longrightarrow> find (\<lambda>v. v_playerId v = p) (venganzaCards g) = Some v \<Longrightarrow>
   t \<in> set (players g) \<Longrightarrow>
   useVenganza g p t now =
     Inr (\<lparr>vr_card = v_card v, vr_message = p @ '' usa venganza contra '' @ t,
           vr_playerId = p, vr_targetPlayerId = t, vr_timestamp = now\<rparr>,
          g\<lparr>venganzaCards := filter (\<lambda>v. v_playerId v \<noteq> p) (venganzaCards g),
            history := history g @
              [\<lparr>h_card = v_card v, h_playerId = p, h_timestamp = now,
                h_rule = Some ''Venganza - Hacer tomar a alguien al final del juego'',
                h_kingsCount = None, h_isActivated = False, h_isVenganza = True,
                h_targetPlayerId = Some t\<rparr>]\<rparr>)"
  by (simp add: useVenganza_def Let_def)

text \<open>The use case refuses whoever is not in the participant list, whatever the card.\<close>

lemma ActivateCard_execute_not_member:
  "gameCode \<noteq> [] \<Longrightarrow> p \<noteq> [] \<Longrightarrow> cardId \<noteq> [] \<Longrightarrow>
   cardType \<in> set [''brinco'', ''movement'', ''venganza''] \<Longrightarrow> p \<notin> set (players g) \<Longrightarrow>
   ActivateCard_execute (Some g) gameCode p cardId cardType tgt now
     = (Inl PlayerNotInGame, Some g)"
  by (auto simp add: ActivateCard_execute_def)

text \<open>Through the use case a participant does consume: both cards of \<open>p\<close> go at once.\<close>

lemma ActivateCard_member_consumes:
  "map_sum id ar_card
     (fst (ActivateCard_execute (Some game_two_aces) ''ABC123'' ''p'' ''A_spades'' ''venganza''
             (Some ''q'') 6000))
     = Inr (Card_toJSON (new_Card Spades RA))
   \<and> map_option venganzaCards
       (snd (ActivateCard_execute (Some game_two_aces) ''ABC123'' ''p'' ''A_spades'' ''venganza''
               (Some ''q'') 6000))
     = Some []"
  by (simp add: ActivateCard_execute_def useVenganza_def game_two_aces_def playing_def Let_def)

section \<open>The claims\<close>

text \<open>
  C1. A participant who draws a card of rank 5 or 9 finds it pushed onto
  \<open>savedCards[p]\<close>. The code does not do this. When \<open>a\<close> draws the five of hearts the
  response says \<open>card_saved\<close> and carries the message of a saved card, with an empty
  list of saved cards, and \<open>savedCards\<close> is what it was before the draw: \<open>saveCard\<close> is
  never called (no draw touches \<open>savedCards\<close>, lemma \<open>draw_keeps_savedCards\<close>).
\<close>

theorem draw_five_not_saved:
  "map_sum id (j_id \<circ> dr_card) (fst (DrawCard_execute (Some game_five) ''ABC123'' ''a'' 1000))
     = Inr ''5_hearts''
   \<and> map_sum id (action \<circ> dr_rule)
        (fst (DrawCard_execute (Some game_five) ''ABC123'' ''a'' 1000))
     = Inr (Some ''card_saved'')
   \<and> map_sum id dr_savedCardInfo
        (fst (DrawCard_execute (Some game_five) ''ABC123'' ''a'' 1000))
     = Inr (Some (''Carta 5 guardada para uso posterior'', []))
   \<and> map_option savedCards (snd (DrawCard_execute (Some game_five) ''ABC123'' ''a'' 1000))
     = Some (savedCards game_five)
   \<and> savedCards game_five ''a'' = Some []"
  by (simp add: run_defs game_five_def applyCardRule.simps rule_result0_def Card_toJSON_def
                card_id_def)

text \<open>
  C2. Drawing the fourth K ends the session, and no draw is accepted afterwards. The
  code only counts the K: after \<open>a\<close> draws the fourth K the count is 4, the session is
  still in Playing, the response says the game is not over, the turn has passed to
  \<open>b\<close>, and the draw of \<open>b\<close> that follows is accepted.
\<close>

theorem fourth_king_keeps_playing:
  "map_sum id (j_rank \<circ> dr_card)
      (fst (DrawCard_execute (Some game_three_kings) ''ABC123'' ''a'' 1000)) = Inr RK
   \<and> map_option kingsCount
        (snd (DrawCard_execute (Some game_three_kings) ''ABC123'' ''a'' 1000)) = Some 4
   \<and> map_option status
        (snd (DrawCard_execute (Some game_three_kings) ''ABC123'' ''a'' 1000)) = Some Started
   \<and> map_sum id dr_isGameOver
        (fst (DrawCard_execute (Some game_three_kings) ''ABC123'' ''a'' 1000)) = Inr False
   \<and> map_option currentTurn
        (snd (DrawCard_execute (Some game_three_kings) ''ABC123'' ''a'' 1000)) = Some 1
   \<and> map_sum id (j_rank \<circ> dr_card)
        (fst (DrawCard_execute
               (snd (DrawCard_execute (Some game_three_kings) ''ABC123'' ''a'' 1000))
               ''ABC123'' ''b'' 2000)) = Inr R2"
  by (simp add: run_defs game_three_kings_def Card_toJSON_def)

text \<open>
  C3. Consuming a venganza removes exactly one entry of the participant. The code
  filters out every entry of the participant: \<open>p\<close> holds two venganza cards, one
  \<open>useVenganza\<close> succeeds, writes one history entry for the first card, and leaves
  \<open>venganzaCards\<close> empty (in general, lemma \<open>useVenganza_removes_all_of_player\<close>).
\<close>

theorem venganza_removes_all_entries:
  "status game_two_aces = Ended
   \<and> map v_playerId (venganzaCards game_two_aces) = [''p'', ''p'']
   \<and> map_sum id (vr_card \<circ> fst) (useVenganza game_two_aces ''p'' ''q'' 6000)
       = Inr (Card_toJSON (new_Card Spades RA))
   \<and> map_sum id (length \<circ> history \<circ> snd) (useVenganza game_two_aces ''p'' ''q'' 6000)
       = Inr 1
   \<and> map_sum id (venganzaCards \<circ> snd) (useVenganza game_two_aces ''p'' ''q'' 6000) = Inr []"
  by (simp add: useVenganza_def game_two_aces_def playing_def Let_def)

text \<open>
  C4. A J makes the participant at \<open>(t + 1) mod n\<close> drink and a Q the one at
  \<open>(t - 1 + n) mod n\<close>, \<open>t\<close> being the turn index before the turn advances. The code
  applies the rule after \<open>drawCard\<close> has advanced the turn: with \<open>[a, b, c]\<close> and \<open>a\<close>
  drawing at \<open>t = 0\<close>, the J names \<open>c\<close> (position 2, not 1) and the Q names \<open>a\<close>, the
  drawer (position 0, not 2); in general, lemmas \<open>drink_left_target\<close> and
  \<open>drink_right_target\<close>.
\<close>

theorem drink_target_after_advance:
  "players game_jack = [''a'', ''b'', ''c''] \<and> currentTurn game_jack = 0
   \<and> players game_queen = [''a'', ''b'', ''c''] \<and> currentTurn game_queen = 0
   \<and> map_sum id (action \<circ> dr_rule)
        (fst (DrawCard_execute (Some game_jack) ''ABC123'' ''a'' 1000)) = Inr (Some ''drink_left'')
   \<and> map_sum id (targetPlayer \<circ> dr_rule)
        (fst (DrawCard_execute (Some game_jack) ''ABC123'' ''a'' 1000)) = Inr (Some ''c'')
   \<and> map_sum id (action \<circ> dr_rule)
        (fst (DrawCard_execute (Some game_queen) ''ABC123'' ''a'' 1000)) = Inr (Some ''drink_right'')
   \<and> map_sum id (targetPlayer \<circ> dr_rule)
        (fst (DrawCard_execute (Some game_queen) ''ABC123'' ''a'' 1000)) = Inr (Some ''a'')"
  by (simp add: run_defs game_jack_def game_queen_def applyCardRule.simps rule_result0_def
                getLeftPlayer_def getRightPlayer_def getNextPlayer_def getPreviousPlayer_def)

text \<open>
  C5, as the code has it. After every successful draw the turn index is
  \<open>(turnIndex + 1) mod n\<close>, whatever the rank of the card: the session has no
  direction, and a 7 reverses nothing.
\<close>

theorem draw_advances_turn_by_one:
  "\<not> isl (fst (DrawCard_execute (Some g) gameCode p now)) \<Longrightarrow>
   map_option currentTurn (snd (DrawCard_execute (Some g) gameCode p now))
     = Some ((currentTurn g + 1) mod length (players g))"
proof -
  assume "\<not> isl (fst (DrawCard_execute (Some g) gameCode p now))"
  then obtain r g' where eq: "DrawCard_execute (Some g) gameCode p now = (Inr r, Some g')"
    by (rule DrawCard_execute_Inr)
  from draw_turn [OF eq] eq show ?thesis by simp
qed

theorem draw_advances_turn_by_one_witness:
  "\<not> isl (fst (DrawCard_execute (Some game_seven) ''ABC123'' ''a'' 1000))
   \<and> map_sum id (j_rank \<circ> dr_card)
        (fst (DrawCard_execute (Some game_seven) ''ABC123'' ''a'' 1000)) = Inr R7
   \<and> map_option currentTurn (snd (DrawCard_execute (Some game_seven) ''ABC123'' ''a'' 1000))
       = Some 1"
proof -
  have h: "\<not> isl (fst (DrawCard_execute (Some game_seven) ''ABC123'' ''a'' 1000))"
    by (simp add: run_defs game_seven_def)
  have r: "map_sum id (j_rank \<circ> dr_card)
             (fst (DrawCard_execute (Some game_seven) ''ABC123'' ''a'' 1000)) = Inr R7"
    by (simp add: run_defs game_seven_def Card_toJSON_def)
  from draw_advances_turn_by_one [OF h] have
    "map_option currentTurn (snd (DrawCard_execute (Some game_seven) ''ABC123'' ''a'' 1000))
       = Some ((currentTurn game_seven + 1) mod length (players game_seven))" .
  then have
    "map_option currentTurn (snd (DrawCard_execute (Some game_seven) ''ABC123'' ''a'' 1000))
       = Some 1"
    by (simp add: game_seven_def playing_def)
  with h r show ?thesis by blast
qed

text \<open>
  With \<open>[a, b, c]\<close> and \<open>a\<close> drawing a 7 at turn index 0 the code moves to 1, where a
  reversed direction gives 2; \<open>b\<close> then draws and the code moves to 2, where a
  direction reversed from then on gives 0.
\<close>

theorem seven_does_not_reverse:
  "map_option currentTurn (snd (DrawCard_execute (Some game_seven) ''ABC123'' ''a'' 1000))
     = Some 1
   \<and> spec_nextTurn 0 (- 1) 3 = 2
   \<and> map_option currentTurn
        (snd (DrawCard_execute (snd (DrawCard_execute (Some game_seven) ''ABC123'' ''a'' 1000))
               ''ABC123'' ''b'' 2000))
     = Some 2
   \<and> spec_nextTurn 1 (- 1) 3 = 0"
  by (simp add: run_defs game_seven_def spec_nextTurn_def)




text \<open>
  C7. After every accepted command the host is a participant and the participant list
  has between 1 and 8 distinct members; the only participant cannot leave an empty
  list behind. \<open>removePlayer\<close> lets the only participant go: on a session just
  created it answers \<open>true\<close> and leaves no participant and a host who is not one. The
  invariant holds on a new session and is kept by \<open>addPlayer\<close> and by \<open>removePlayer\<close>
  while two or more participants are present (lemmas \<open>new_Game_players_ok\<close>,
  \<open>addPlayer_players_ok\<close>, \<open>removePlayer_players_ok\<close>).
\<close>

theorem sole_participant_leaves:
  "removePlayer (new_Game ''ABC123'' ''h'' d 0) ''h''
     = (True, (new_Game ''ABC123'' ''h'' d 0)\<lparr>players := []\<rparr>)
   \<and> players (snd (removePlayer (new_Game ''ABC123'' ''h'' d 0) ''h'')) = []
   \<and> host (snd (removePlayer (new_Game ''ABC123'' ''h'' d 0) ''h'')) = ''h''
   \<and> \<not> players_ok (snd (removePlayer (new_Game ''ABC123'' ''h'' d 0) ''h''))"
  by (simp add: removePlayer_def new_Game_def Let_def players_ok_def)

text \<open>
  C8, as the code has it. For a participant who holds three saved cards (or more),
  \<open>saveCard\<close> throws the error of the maximum of saved cards; nothing is saved and
  nothing is dropped.
\<close>

theorem saveCard_full_rejected:
  "p \<in> set (players g) \<Longrightarrow> savedCards g p = Some cs \<Longrightarrow> length cs \<ge> 3 \<Longrightarrow>
   saveCard g p c = Inl MaxSavedCards"
  by (simp add: saveCard_def)

theorem saveCard_full_rejected_witness:
  "''p'' \<in> set (players game_full_hand)
   \<and> savedCards game_full_hand ''p''
       = Some [Card_toJSON (new_Card Hearts R5), Card_toJSON (new_Card Clubs R9),
               Card_toJSON (new_Card Spades R5)]
   \<and> length [Card_toJSON (new_Card Hearts R5), Card_toJSON (new_Card Clubs R9),
              Card_toJSON (new_Card Spades R5)] \<ge> 3
   \<and> saveCard game_full_hand ''p'' (new_Card Diamonds R9) = Inl MaxSavedCards"
proof -
  have h1: "''p'' \<in> set (players game_full_hand)"
    by (simp add: game_full_hand_def playing_def)
  have h2: "savedCards game_full_hand ''p''
       = Some [Card_toJSON (new_Card Hearts R5), Card_toJSON (new_Card Clubs R9),
               Card_toJSON (new_Card Spades R5)]"
    by (simp add: game_full_hand_def playing_def)
  have h3: "length [Card_toJSON (new_Card Hearts R5), Card_toJSON (new_Card Clubs R9),
              Card_toJSON (new_Card Spades R5)] \<ge> 3" by simp
  from saveCard_full_rejected [OF h1 h2 h3] h1 h2 h3 show ?thesis by blast
qed

text \<open>
  \<open>p\<close> holds three saved cards and saves a nine: the call fails, where the
  specification has it succeed and drop the oldest card.
\<close>

theorem saveCard_fourth_fails:
  "map_option length (savedCards game_full_hand ''p'') = Some 3
   \<and> saveCard game_full_hand ''p'' (new_Card Diamonds R9) = Inl MaxSavedCards"
  by (simp add: saveCard_def game_full_hand_def playing_def)

text \<open>
  C9, as the code has it. Restoring a session from its export gives the session back,
  so exporting again gives the same export; the export has no key \<open>version\<close>.
\<close>

theorem export_roundtrip:
  "fromJSON now (toJSON g) = Some g
   \<and> map_option toJSON (fromJSON now (toJSON g)) = Some (toJSON g)
   \<and> map_of (toJSON g) ''version'' = None"
  by (simp add: fromJSON_toJSON toJSON_no_version)

theorem export_roundtrip_witness:
  "fromJSON 7000 (toJSON game_two_aces) = Some game_two_aces
   \<and> map_option toJSON (fromJSON 7000 (toJSON game_two_aces)) = Some (toJSON game_two_aces)
   \<and> map_of (toJSON game_two_aces) ''version'' = None"
  by (rule export_roundtrip)

text \<open>The export of a session has no key \<open>version\<close>, hence none equal to 1.\<close>

theorem export_has_no_version:
  "map_of (toJSON game_two_aces) ''version'' \<noteq> Some (JNum 1)"
  by (simp add: toJSON_def)

text \<open>
  C10, as the code has it. When a participant \<open>p\<close> leaves, \<open>removePlayer\<close> changes the
  participant list, the entry of \<open>p\<close> in \<open>savedCards\<close>, the host (the new head of the
  list, if \<open>p\<close> was the host and someone remains) and the turn index (0, if it is out of
  range), and nothing else: deck, history, venganzaCards, cupContent, kingsCount, rules
  and status are the same, so the venganza cards of \<open>p\<close> are still there. Once the
  session has ended the method \<open>useVenganza\<close> would accept one from \<open>p\<close> against a
  participant who remains (it removes every entry of \<open>p\<close> and writes one history
  entry), but the use case \<open>ActivateCard\<close>, its only caller, refuses \<open>p\<close>, who is no
  longer in the participant list (the participants being distinct, as \<open>addPlayer\<close> keeps
  them), and changes nothing: \<open>p\<close> cannot consume them.
\<close>

theorem leave_frame_and_venganza:
  "p \<in> set (players g) \<Longrightarrow>
   removePlayer g p =
     (True, g\<lparr>players := remove1 p (players g),
              savedCards := (savedCards g)(p := None),
              host := (if host g = p \<and> remove1 p (players g) \<noteq> []
                       then hd (remove1 p (players g)) else host g),
              currentTurn := (if length (remove1 p (players g)) \<le> currentTurn g
                              then 0 else currentTurn g)\<rparr>)
   \<and> deck (snd (removePlayer g p)) = deck g
   \<and> history (snd (removePlayer g p)) = history g
   \<and> venganzaCards (snd (removePlayer g p)) = venganzaCards g
   \<and> cupContent (snd (removePlayer g p)) = cupContent g
   \<and> kingsCount (snd (removePlayer g p)) = kingsCount g
   \<and> rules (snd (removePlayer g p)) = rules g
   \<and> status (snd (removePlayer g p)) = status g
   \<and> (find (\<lambda>v. v_playerId v = p) (venganzaCards g) = Some v
        \<and> t \<in> set (players (snd (removePlayer g p)))
      \<longrightarrow> useVenganza (endGame (snd (removePlayer g p)) now) p t now' =
            Inr (\<lparr>vr_card = v_card v, vr_message = p @ '' usa venganza contra '' @ t,
                  vr_playerId = p, vr_targetPlayerId = t, vr_timestamp = now'\<rparr>,
                 (endGame (snd (removePlayer g p)) now)
                   \<lparr>venganzaCards := filter (\<lambda>v. v_playerId v \<noteq> p) (venganzaCards g),
                    history := history g @
                      [\<lparr>h_card = v_card v, h_playerId = p, h_timestamp = now',
                        h_rule = Some ''Venganza - Hacer tomar a alguien al final del juego'',
                        h_kingsCount = None, h_isActivated = False, h_isVenganza = True,
                        h_targetPlayerId = Some t\<rparr>]\<rparr>))
   \<and> (distinct (players g) \<and> gameCode \<noteq> [] \<and> p \<noteq> [] \<and> cardId \<noteq> []
        \<and> cardType \<in> set [''brinco'', ''movement'', ''venganza'']
      \<longrightarrow> ActivateCard_execute (Some (endGame (snd (removePlayer g p)) now))
              gameCode p cardId cardType tgt now'
            = (Inl PlayerNotInGame, Some (endGame (snd (removePlayer g p)) now)))"
proof -
  assume mem: "p \<in> set (players g)"
  let ?g' = "snd (removePlayer g p)"
  note rm = removePlayer_member [OF mem]
  have frame: "deck ?g' = deck g" "history ?g' = history g"
    "venganzaCards ?g' = venganzaCards g" "cupContent ?g' = cupContent g"
    "kingsCount ?g' = kingsCount g" "rules ?g' = rules g" "status ?g' = status g"
    by (simp_all add: rm)
  have use: "useVenganza (endGame ?g' now) p t now' =
            Inr (\<lparr>vr_card = v_card v, vr_message = p @ '' usa venganza contra '' @ t,
                  vr_playerId = p, vr_targetPlayerId = t, vr_timestamp = now'\<rparr>,
                 (endGame ?g' now)
                   \<lparr>venganzaCards := filter (\<lambda>v. v_playerId v \<noteq> p) (venganzaCards g),
                    history := history g @
                      [\<lparr>h_card = v_card v, h_playerId = p, h_timestamp = now',
                        h_rule = Some ''Venganza - Hacer tomar a alguien al final del juego'',
                        h_kingsCount = None, h_isActivated = False, h_isVenganza = True,
                        h_targetPlayerId = Some t\<rparr>]\<rparr>)"
    if f: "find (\<lambda>v. v_playerId v = p) (venganzaCards g) = Some v"
      and t: "t \<in> set (players ?g')"
  proof -
    have "status (endGame ?g' now) = Ended" by (simp add: endGame_def)
    moreover from f frame have
      "find (\<lambda>v. v_playerId v = p) (venganzaCards (endGame ?g' now)) = Some v"
      by (simp add: endGame_def)
    moreover from t have "t \<in> set (players (endGame ?g' now))" by (simp add: endGame_def)
    ultimately have "useVenganza (endGame ?g' now) p t now' =
       Inr (\<lparr>vr_card = v_card v, vr_message = p @ '' usa venganza contra '' @ t,
             vr_playerId = p, vr_targetPlayerId = t, vr_timestamp = now'\<rparr>,
            (endGame ?g' now)
              \<lparr>venganzaCards :=
                 filter (\<lambda>v. v_playerId v \<noteq> p) (venganzaCards (endGame ?g' now)),
               history := history (endGame ?g' now) @
                 [\<lparr>h_card = v_card v, h_playerId = p, h_timestamp = now',
                   h_rule = Some ''Venganza - Hacer tomar a alguien al final del juego'',
                   h_kingsCount = None, h_isActivated = False, h_isVenganza = True,
                   h_targetPlayerId = Some t\<rparr>]\<rparr>)"
      by (rule useVenganza_accepts)
    with frame show ?thesis by (simp add: endGame_def)
  qed
  have refuse: "ActivateCard_execute (Some (endGame ?g' now)) gameCode p cardId cardType tgt now'
            = (Inl PlayerNotInGame, Some (endGame ?g' now))"
    if dist: "distinct (players g)" and ne: "gameCode \<noteq> []" "p \<noteq> []" "cardId \<noteq> []"
       "cardType \<in> set [''brinco'', ''movement'', ''venganza'']"
  proof -
    have "p \<notin> set (players (endGame ?g' now))"
      using removePlayer_departed [OF mem dist] by (simp add: endGame_def)
    with ne show ?thesis by (rule ActivateCard_execute_not_member)
  qed
  from rm frame use refuse show ?thesis by blast
qed

theorem leave_frame_and_venganza_witness:
  "''p'' \<in> set (players game_leaver) \<and> distinct (players game_leaver)
   \<and> find (\<lambda>v. v_playerId v = ''p'') (venganzaCards game_leaver)
       = Some \<lparr>v_playerId = ''p'', v_card = Card_toJSON (new_Card Spades RA), v_timestamp = 100\<rparr>
   \<and> ''q'' \<in> set (players (snd (removePlayer game_leaver ''p'')))
   \<and> ''ABC123'' \<noteq> [] \<and> ''p'' \<noteq> [] \<and> ''A_spades'' \<noteq> []
   \<and> ''venganza'' \<in> set [''brinco'', ''movement'', ''venganza'']
   \<and> players (snd (removePlayer game_leaver ''p'')) = [''h'', ''q'']
   \<and> currentTurn (snd (removePlayer game_leaver ''p'')) = 0
   \<and> venganzaCards (snd (removePlayer game_leaver ''p'')) = venganzaCards game_leaver
   \<and> map_sum id (venganzaCards \<circ> snd)
        (useVenganza (endGame (snd (removePlayer game_leaver ''p'')) 5000) ''p'' ''q'' 6000)
       = Inr []
   \<and> ActivateCard_execute (Some (endGame (snd (removePlayer game_leaver ''p'')) 5000))
        ''ABC123'' ''p'' ''A_spades'' ''venganza'' (Some ''q'') 6000
       = (Inl PlayerNotInGame, Some (endGame (snd (removePlayer game_leaver ''p'')) 5000))"
proof -
  let ?v = "\<lparr>v_playerId = ''p'', v_card = Card_toJSON (new_Card Spades RA), v_timestamp = 100\<rparr>"
  let ?g' = "snd (removePlayer game_leaver ''p'')"
  have h1: "''p'' \<in> set (players game_leaver)"
    by (simp add: game_leaver_def playing_def)
  have h2: "distinct (players game_leaver)"
    by (simp add: game_leaver_def playing_def)
  have h3: "find (\<lambda>v. v_playerId v = ''p'') (venganzaCards game_leaver) = Some ?v"
    by (simp add: game_leaver_def playing_def)
  have h4: "''q'' \<in> set (players ?g')"
    by (simp add: game_leaver_def playing_def removePlayer_def Let_def)
  have h5: "''ABC123'' \<noteq> []" "''p'' \<noteq> []" "''A_spades'' \<noteq> []"
    "''venganza'' \<in> set [''brinco'', ''movement'', ''venganza'']" by simp_all
  have ps: "players ?g' = [''h'', ''q'']"
    by (simp add: game_leaver_def playing_def removePlayer_def Let_def)
  have ct: "currentTurn ?g' = 0"
    by (simp add: game_leaver_def playing_def removePlayer_def Let_def)
  note inst = leave_frame_and_venganza [OF h1, of ?v "''q''" 5000 6000 "''ABC123''"
      "''A_spades''" "''venganza''" "Some ''q''"]
  from inst have vc: "venganzaCards ?g' = venganzaCards game_leaver" by blast
  from inst h3 h4 have "useVenganza (endGame ?g' 5000) ''p'' ''q'' 6000 =
      Inr (\<lparr>vr_card = v_card ?v, vr_message = ''p'' @ '' usa venganza contra '' @ ''q'',
            vr_playerId = ''p'', vr_targetPlayerId = ''q'', vr_timestamp = 6000\<rparr>,
           (endGame ?g' 5000)
             \<lparr>venganzaCards := filter (\<lambda>v. v_playerId v \<noteq> ''p'') (venganzaCards game_leaver),
              history := history game_leaver @
                [\<lparr>h_card = v_card ?v, h_playerId = ''p'', h_timestamp = 6000,
                  h_rule = Some ''Venganza - Hacer tomar a alguien al final del juego'',
                  h_kingsCount = None, h_isActivated = False, h_isVenganza = True,
                  h_targetPlayerId = Some ''q''\<rparr>]\<rparr>)"
    by blast
  then have use: "map_sum id (venganzaCards \<circ> snd)
        (useVenganza (endGame ?g' 5000) ''p'' ''q'' 6000) = Inr []"
    by (simp add: game_leaver_def playing_def)
  from inst h2 h5 have refuse:
    "ActivateCard_execute (Some (endGame ?g' 5000))
        ''ABC123'' ''p'' ''A_spades'' ''venganza'' (Some ''q'') 6000
       = (Inl PlayerNotInGame, Some (endGame ?g' 5000))"
    by blast
  from h1 h2 h3 h4 h5 ps ct vc use refuse show ?thesis by blast
qed

text \<open>
  \<open>p\<close> holds a venganza card, leaves, and the session ends. The card is still in
  \<open>venganzaCards\<close> and \<open>q\<close> is a participant, but the use case refuses \<open>p\<close>, who is not
  in the participant list, and the session is what it was.
\<close>

theorem departed_player_cannot_consume:
  "''p'' \<in> set (players game_leaver)
   \<and> map v_playerId (venganzaCards (endGame (snd (removePlayer game_leaver ''p'')) 5000))
       = [''p'']
   \<and> status (endGame (snd (removePlayer game_leaver ''p'')) 5000) = Ended
   \<and> players (endGame (snd (removePlayer game_leaver ''p'')) 5000) = [''h'', ''q'']
   \<and> ActivateCard_execute (Some (endGame (snd (removePlayer game_leaver ''p'')) 5000))
        ''ABC123'' ''p'' ''A_spades'' ''venganza'' (Some ''q'') 6000
       = (Inl PlayerNotInGame, Some (endGame (snd (removePlayer game_leaver ''p'')) 5000))"
  by (simp add: ActivateCard_execute_def game_leaver_def playing_def removePlayer_def Let_def
                endGame_def)

end
